theory Spec2Isabelle
  imports Main "HOL-Library.Sublist"
begin

section \<open>Python strings\<close>

text \<open>
  File contents, paths and patterns are Python \<open>str\<close> values.  They are modelled as
  \<^typ>\<open>string\<close>, one \<^typ>\<open>char\<close> per code point, which covers every text whose code
  points are below 256.  The substring test \<open>a in s\<close> is \<^const>\<open>sublist\<close>,
  \<open>s.startswith(a)\<close> is \<^const>\<open>prefix\<close>.
\<close>

definition is_space :: "char \<Rightarrow> bool" where
  \<comment> \<open>\<open>\s\<close> of \<open>re\<close> on \<open>str\<close> and \<open>str.isspace\<close>, for code points below 256\<close>
  "is_space c = (c \<in> set [CHR 0x20, CHR 0x09, CHR 0x0A, CHR 0x0B, CHR 0x0C, CHR 0x0D,
                           CHR 0x1C, CHR 0x1D, CHR 0x1E, CHR 0x1F, CHR 0x85, CHR 0xA0])"

definition is_word :: "char \<Rightarrow> bool" where
  \<comment> \<open>\<open>\w\<close> of \<open>re\<close> on \<open>str\<close>: alphanumeric or underscore, for code points below 256\<close>
  "is_word c = (let n = (of_char c :: nat) in
      (48 \<le> n \<and> n \<le> 57) \<or> (65 \<le> n \<and> n \<le> 90) \<or> n = 95 \<or> (97 \<le> n \<and> n \<le> 122) \<or>
      n \<in> set [170, 178, 179, 181, 185, 186, 188, 189, 190] \<or>
      (192 \<le> n \<and> n \<le> 214) \<or> (216 \<le> n \<and> n \<le> 246) \<or> (248 \<le> n \<and> n \<le> 255))"

definition not_in :: "string \<Rightarrow> char \<Rightarrow> bool" where
  \<comment> \<open>the negated class \<open>[^...]\<close>\<close>
  "not_in cs c = (c \<notin> set cs)"

definition any_char :: "char \<Rightarrow> bool" where
  \<comment> \<open>\<open>.\<close> under \<open>re.DOTALL\<close>\<close>
  "any_char c = True"

definition not_newline :: "char \<Rightarrow> bool" where
  \<comment> \<open>\<open>.\<close> without \<open>re.DOTALL\<close>\<close>
  "not_newline c = (c \<noteq> CHR 0x0A)"

definition quote_char :: "char \<Rightarrow> bool" where
  \<comment> \<open>the class \<open>['"]\<close>\<close>
  "quote_char c = (c = CHR 0x27 \<or> c = CHR 0x22)"

fun grow :: "char \<Rightarrow> string list \<Rightarrow> string list" where
  \<comment> \<open>one more character at the front of the first text of a list\<close>
  "grow x [] = [[x]]"
| "grow x (p # ps) = (x # p) # ps"

fun str_replace_ne :: "string \<Rightarrow> string \<Rightarrow> string \<Rightarrow> string" where
  "str_replace_ne old new [] = []"
| "str_replace_ne old new (x # xs) =
     (if prefix old (x # xs) then new @ str_replace_ne old new (drop (length old - 1) xs)
      else x # str_replace_ne old new xs)"

definition str_replace :: "string \<Rightarrow> string \<Rightarrow> string \<Rightarrow> string" where
  \<comment> \<open>\<open>s.replace(old, new)\<close>: the non-overlapping occurrences of \<open>old\<close>, leftmost first;
      an empty \<open>old\<close> matches before every character and at the end\<close>
  "str_replace old new s =
     (if old = [] then new @ concat (map (\<lambda>c. c # new) s) else str_replace_ne old new s)"

fun split_str :: "string \<Rightarrow> string \<Rightarrow> string list" where
  \<comment> \<open>\<open>s.split(sep)\<close> for a non-empty separator (every separator in the scripts is a
      literal)\<close>
  "split_str sep [] = [[]]"
| "split_str sep (x # xs) =
     (if prefix sep (x # xs) then [] # split_str sep (drop (length sep - 1) xs)
      else grow x (split_str sep xs))"

fun join :: "string \<Rightarrow> string list \<Rightarrow> string" where
  \<comment> \<open>\<open>sep.join(ls)\<close>\<close>
  "join sep [] = []"
| "join sep [l] = l"
| "join sep (l # ls) = l @ sep @ join sep ls"

definition strip :: "string \<Rightarrow> string" where
  \<comment> \<open>\<open>s.strip()\<close>\<close>
  "strip s = rev (dropWhile is_space (rev (dropWhile is_space s)))"

definition insert_at :: "nat \<Rightarrow> 'a \<Rightarrow> 'a list \<Rightarrow> 'a list" where
  \<comment> \<open>\<open>ls.insert(i, x)\<close> for \<open>i \<ge> 0\<close>: an index past the end appends\<close>
  "insert_at i x ls = take i ls @ x # drop i ls"

section \<open>The regular expressions of the scripts\<close>

text \<open>
  The scripts locate their anchors with \<open>re\<close>.  A pattern is a sequence of atoms; every
  repetition in the scripts' patterns is over a character class, and the only nested
  construct is the optional non-capturing group.  \<open>rmatch p s\<close> matches \<open>p\<close> at the
  start of \<open>s\<close> with the priorities of a backtracking matcher (a greedy repetition tries
  its longest run first, a lazy one its shortest, an optional group is tried before it is
  left out) and returns the text matched by each atom.
\<close>

datatype rx =
    Lit string
  | One "char \<Rightarrow> bool"
  | Star "char \<Rightarrow> bool"
  | Plus "char \<Rightarrow> bool"
  | Lazy "char \<Rightarrow> bool"
  | Opt "rx list"
  | Ahead "string list"
  | GOpen
  | GClose

fun rmatch :: "rx list \<Rightarrow> string \<Rightarrow> string list option" where
  "rmatch [] s = Some []"
| "rmatch (Lit l # r) s =
     (if prefix l s then map_option (Cons l) (rmatch r (drop (length l) s)) else None)"
| "rmatch (One c # r) [] = None"
| "rmatch (One c # r) (x # xs) =
     (if c x then map_option (Cons [x]) (rmatch r xs) else None)"
| "rmatch (Star c # r) [] = map_option (Cons []) (rmatch r [])"
| "rmatch (Star c # r) (x # xs) =
     (if c x then
        (case rmatch (Star c # r) xs of
           Some ps \<Rightarrow> Some (grow x ps)
         | None \<Rightarrow> map_option (Cons []) (rmatch r (x # xs)))
      else map_option (Cons []) (rmatch r (x # xs)))"
| "rmatch (Plus c # r) [] = None"
| "rmatch (Plus c # r) (x # xs) =
     (if c x then map_option (grow x) (rmatch (Star c # r) xs) else None)"
| "rmatch (Lazy c # r) [] = map_option (Cons []) (rmatch r [])"
| "rmatch (Lazy c # r) (x # xs) =
     (case rmatch r (x # xs) of
        Some ps \<Rightarrow> Some ([] # ps)
      | None \<Rightarrow> if c x then map_option (grow x) (rmatch (Lazy c # r) xs) else None)"
| "rmatch (Opt q # r) s =
     (case rmatch (q @ r) s of
        Some ps \<Rightarrow> Some (concat (take (length q) ps) # drop (length q) ps)
      | None \<Rightarrow> map_option (Cons []) (rmatch r s))"
| "rmatch (Ahead ls # r) s =
     (if \<exists>l \<in> set ls. prefix l s then map_option (Cons []) (rmatch r s) else None)"
| "rmatch (GOpen # r) s = map_option (Cons []) (rmatch r s)"
| "rmatch (GClose # r) s = map_option (Cons []) (rmatch r s)"

fun groups_from :: "rx list \<Rightarrow> string list \<Rightarrow> string option \<Rightarrow> string list" where
  \<comment> \<open>the texts of the capture groups, in order, from the texts of the atoms\<close>
  "groups_from (GOpen # r) (p # ps) cur = groups_from r ps (Some [])"
| "groups_from (GClose # r) (p # ps) cur =
     (case cur of Some g \<Rightarrow> g # groups_from r ps None | None \<Rightarrow> groups_from r ps None)"
| "groups_from (a # r) (p # ps) cur =
     (case cur of Some g \<Rightarrow> groups_from r ps (Some (g @ p)) | None \<Rightarrow> groups_from r ps None)"
| "groups_from r ps cur = []"

definition group :: "rx list \<Rightarrow> string list \<Rightarrow> nat \<Rightarrow> string" where
  \<comment> \<open>\<open>m.group(k)\<close>; group 0 is the whole match\<close>
  "group p ps k = (if k = 0 then concat ps else groups_from p ps None ! (k - 1))"

fun re_search :: "rx list \<Rightarrow> string \<Rightarrow> (string \<times> string list \<times> string) option" where
  \<comment> \<open>\<open>re.search\<close>: the leftmost match, as (text before, atoms' texts, text after)\<close>
  "re_search p [] = (case rmatch p [] of Some ps \<Rightarrow> Some ([], ps, []) | None \<Rightarrow> None)"
| "re_search p (x # xs) =
     (case rmatch p (x # xs) of
        Some ps \<Rightarrow> Some ([], ps, drop (length (concat ps)) (x # xs))
      | None \<Rightarrow> map_option (\<lambda>(a, ps, b). (x # a, ps, b)) (re_search p xs))"

fun re_search_bol :: "rx list \<Rightarrow> bool \<Rightarrow> string \<Rightarrow> (string \<times> string list \<times> string) option" where
  \<comment> \<open>\<open>re.search\<close> of \<open>^p\<close> under \<open>re.MULTILINE\<close>: only at the start of a line\<close>
  "re_search_bol p b [] =
     (case (if b then rmatch p [] else None) of Some ps \<Rightarrow> Some ([], ps, []) | None \<Rightarrow> None)"
| "re_search_bol p b (x # xs) =
     (case (if b then rmatch p (x # xs) else None) of
        Some ps \<Rightarrow> Some ([], ps, drop (length (concat ps)) (x # xs))
      | None \<Rightarrow> map_option (\<lambda>(a, ps, c). (x # a, ps, c)) (re_search_bol p (x = CHR 0x0A) xs))"

fun re_sub :: "rx list \<Rightarrow> (string list \<Rightarrow> string) \<Rightarrow> string \<Rightarrow> string" where
  \<comment> \<open>\<open>re.sub(p, f, s)\<close>: every non-overlapping match, leftmost first, replaced by \<open>f\<close> of it\<close>
  "re_sub p f [] = (case rmatch p [] of Some ps \<Rightarrow> f ps | None \<Rightarrow> [])"
| "re_sub p f (x # xs) =
     (case rmatch p (x # xs) of
        None \<Rightarrow> x # re_sub p f xs
      | Some ps \<Rightarrow>
          if concat ps = [] then f ps @ x # re_sub p f xs
          else f ps @ re_sub p f (drop (length (concat ps) - 1) xs))"

definition re_sub1 :: "rx list \<Rightarrow> (string list \<Rightarrow> string) \<Rightarrow> string \<Rightarrow> string" where
  \<comment> \<open>\<open>re.sub(p, f, s, count=1)\<close>\<close>
  "re_sub1 p f s = (case re_search p s of None \<Rightarrow> s | Some (a, ps, b) \<Rightarrow> a @ f ps @ b)"

fun re_sub_e :: "rx list \<Rightarrow> (string list \<Rightarrow> 'e + string) \<Rightarrow> string \<Rightarrow> 'e + string" where
  \<comment> \<open>\<open>re.sub\<close> with a replacement function that may raise: the first raise ends the call\<close>
  "re_sub_e p f [] = (case rmatch p [] of Some ps \<Rightarrow> f ps | None \<Rightarrow> Inr [])"
| "re_sub_e p f (x # xs) =
     (case rmatch p (x # xs) of
        None \<Rightarrow> map_sum id (Cons x) (re_sub_e p f xs)
      | Some ps \<Rightarrow>
          (case f ps of
             Inl e \<Rightarrow> Inl e
           | Inr t \<Rightarrow>
               if concat ps = [] then map_sum id (\<lambda>u. t @ x # u) (re_sub_e p f xs)
               else map_sum id (\<lambda>u. t @ u) (re_sub_e p f (drop (length (concat ps) - 1) xs))))"

fun re_finditer :: "rx list \<Rightarrow> nat \<Rightarrow> string \<Rightarrow> (nat \<times> string list) list" where
  \<comment> \<open>\<open>re.finditer\<close> on the text that starts at offset \<open>i\<close>: the non-overlapping matches,
      each with its start offset\<close>
  "re_finditer p i [] = (case rmatch p [] of Some ps \<Rightarrow> [(i, ps)] | None \<Rightarrow> [])"
| "re_finditer p i (x # xs) =
     (case rmatch p (x # xs) of
        None \<Rightarrow> re_finditer p (Suc i) xs
      | Some ps \<Rightarrow>
          if concat ps = [] then (i, ps) # re_finditer p (Suc i) xs
          else (i, ps) # re_finditer p (i + length (concat ps)) (drop (length (concat ps) - 1) xs))"

section \<open>Files, messages and exceptions\<close>

text \<open>
  The scripts read and write files and print one line per event.  The world is the
  content of every existing file, the paths read and the writes done so far (newest
  first), and the lines printed (newest first).  A print is its kind and its arguments.
\<close>

datatype exn = AttributeError | FileNotFoundError

datatype msg =
    Processing string
  | FileNotFound string
  | Updated string
  | NoChanges string
  | AlreadyUpdated string
  | AlreadyMigrated string
  | Migrating string
  | Skipping string
  | ErrorIn string exn
  | Summary "nat list"

record world =
  files :: "string \<rightharpoonup> string"
  reads :: "string list"
  writes :: "(string \<times> string) list"
  out :: "msg list"

definition print :: "msg \<Rightarrow> world \<Rightarrow> world" where
  "print m w = w\<lparr>out := m # out w\<rparr>"

definition exists :: "string \<Rightarrow> world \<Rightarrow> bool" where
  \<comment> \<open>\<open>os.path.exists\<close>\<close>
  "exists p w = (files w p \<noteq> None)"

definition read_file :: "string \<Rightarrow> world \<Rightarrow> (exn + string) \<times> world" where
  \<comment> \<open>\<open>open(p, 'r').read()\<close>: a missing file raises\<close>
  "read_file p w =
     (case files w p of
        None \<Rightarrow> (Inl FileNotFoundError, w)
      | Some c \<Rightarrow> (Inr c, w\<lparr>reads := p # reads w\<rparr>))"

definition write_file :: "string \<Rightarrow> string \<Rightarrow> world \<Rightarrow> world" where
  \<comment> \<open>\<open>open(p, 'w').write(c)\<close>\<close>
  "write_file p c w = w\<lparr>files := (files w)(p \<mapsto> c), writes := (p, c) # writes w\<rparr>"

section \<open>apply-phase1-standards.py\<close>

definition PHASE1_IMPORTS :: string where
  "PHASE1_IMPORTS =
     ''import { NextRequest, NextResponse } from 'next/server';\<newline>'' @
     ''import { query } from '@/lib/db';\<newline>'' @
     ''import {\<newline>'' @
     ''  parseStandardPaginationParams,\<newline>'' @
     ''  parseSortParams,\<newline>'' @
     ''  buildStandardListResponse,\<newline>'' @
     ''} from '@/lib/pagination';\<newline>'' @
     ''import {\<newline>'' @
     ''  buildWhereClause,\<newline>'' @
     ''  buildSearchClause,\<newline>'' @
     ''  buildQuery,\<newline>'' @
     ''} from '@/lib/query-builder';\<newline>'' @
     ''import {\<newline>'' @
     ''  standardErrorResponse,\<newline>'' @
     ''  validationErrorResponse,\<newline>'' @
     ''  ErrorCodes,\<newline>'' @
     ''  addStandardHeaders,\<newline>'' @
     ''} from '@/lib/response';\<newline>'' @
     ''import { requirePermission } from '@/middleware/permissions';\<newline>'' @
     ''import { getRequestId, logRequest, logResponse } from '@/middleware/correlation';\<newline>'' @
     ''import { addRateLimitHeaders, globalRateLimitTracker } from '@/middleware/rateLimit';\<newline>'' @
     ''import { auditLog, AuditActions, AuditResources } from '@/middleware/audit';''"

definition FILES_TO_UPDATE :: "string list" where
  \<comment> \<open>the \<open>path\<close> of each entry; no other field of an entry is read\<close>
  "FILES_TO_UPDATE =
     [''src/app/api/hotels/[id]/route.ts'', ''src/app/api/guides/route.ts'',
      ''src/app/api/guides/[id]/route.ts'', ''src/app/api/vehicles/route.ts'',
      ''src/app/api/vehicles/[id]/route.ts'', ''src/app/api/restaurants/route.ts'',
      ''src/app/api/transfers/route.ts'', ''src/app/api/providers/route.ts'',
      ''src/app/api/providers/[id]/route.ts'', ''src/app/api/suppliers/search/route.ts'']"

definition import_section :: "rx list" where
  \<comment> \<open>\<open>^(import.*?)\n\n(?=export|\/\/)\<close> with \<open>re.DOTALL | re.MULTILINE\<close>; the \<open>^\<close> is
      the line-start search\<close>
  "import_section =
     [GOpen, Lit ''import'', Lazy any_char, GClose, Lit ''\<newline>\<newline>'', Ahead [''export'', ''//'']]"

definition apply_phase1_imports :: "string \<Rightarrow> string" where
  "apply_phase1_imports content =
     (case re_search_bol import_section True content of
        Some (a, ps, b) \<Rightarrow> str_replace (group import_section ps 1) PHASE1_IMPORTS content
      | None \<Rightarrow> content)"

definition get_start :: "rx list" where
  \<comment> \<open>\<open>(export async function GET\([^)]+\) \{)\<close>\<close>
  "get_start = [GOpen, Lit ''export async function GET('', Plus (not_in '')''), Lit '') {'', GClose]"

definition auth_destructure :: "rx list" where
  \<comment> \<open>\<open>(const \{ tenantId(?:, user)? \} = authResult;)\<close>\<close>
  "auth_destructure =
     [GOpen, Lit ''const { tenantId'', Opt [Lit '', user''], Lit '' } = authResult;'', GClose]"

definition tracking_code :: string where
  "tracking_code =
     ''\<newline>  const requestId = getRequestId(request);\<newline>  const startTime = Date.now();''"

definition get_rate_limit_code :: string where
  "get_rate_limit_code =
     ''\<newline>\<newline>'' @
     ''    // Rate limiting (100 requests per hour per user)\<newline>'' @
     ''    const rateLimit = globalRateLimitTracker.trackRequest(\<newline>'' @
     ''      `user_${user.userId}`,\<newline>'' @
     ''      100,\<newline>'' @
     ''      3600\<newline>'' @
     ''    );\<newline>'' @
     ''\<newline>'' @
     ''    if (rateLimit.remaining === 0) {\<newline>'' @
     ''      const minutesLeft = Math.ceil((rateLimit.reset - Math.floor(Date.now() / 1000)) / 60);\<newline>'' @
     ''      return standardErrorResponse(\<newline>'' @
     ''        ErrorCodes.RATE_LIMIT_EXCEEDED,\<newline>'' @
     ''        `Rate limit exceeded. Try again in ${minutesLeft} minutes.`,\<newline>'' @
     ''        429,\<newline>'' @
     ''        undefined,\<newline>'' @
     ''        requestId\<newline>'' @
     ''      );\<newline>'' @
     ''    }''"

definition add_request_tracking_to_get :: "string \<Rightarrow> string" where
  "add_request_tracking_to_get content =
     (let content = re_sub get_start (\<lambda>ps. group get_start ps 1 @ tracking_code) content
      in re_sub1 auth_destructure (\<lambda>ps. group auth_destructure ps 1 @ get_rate_limit_code) content)"

definition replace_pagination_calls :: "string \<Rightarrow> string" where
  "replace_pagination_calls content =
     (let content = str_replace ''parsePaginationParams('' ''parseStandardPaginationParams('' content
      in str_replace ''buildPagedResponse('' ''buildStandardListResponse('' content)"

definition internal_error_call :: "rx list" where
  \<comment> \<open>\<open>errorResponse\(\s*internalServerErrorProblem\([^)]+\)\s*\)\<close>\<close>
  "internal_error_call =
     [Lit ''errorResponse('', Star is_space, Lit ''internalServerErrorProblem('',
      Plus (not_in '')''), Lit '')'', Star is_space, Lit '')'']"

definition single_quoted :: "rx list" where
  \<comment> \<open>\<open>'([^']+)'\<close>\<close>
  "single_quoted = [Lit [CHR 0x27], GOpen, Plus (not_in [CHR 0x27]), GClose, Lit [CHR 0x27]]"

definition replace_error_responses :: "string \<Rightarrow> exn + string" where
  \<comment> \<open>the replacement function calls \<open>.group(1)\<close> on the result of a search that is
      \<open>None\<close> when the matched call holds no single-quoted text\<close>
  "replace_error_responses content =
     re_sub_e internal_error_call
       (\<lambda>ps. case re_search single_quoted (group internal_error_call ps 0) of
                None \<Rightarrow> Inl AttributeError
              | Some (a, qs, b) \<Rightarrow>
                  Inr (''standardErrorResponse(ErrorCodes.INTERNAL_ERROR, '' @
                       group single_quoted qs 1 @ '', 500, undefined, requestId)''))
       content"

definition p1_pipeline :: "string \<Rightarrow> exn + string" where
  \<comment> \<open>the four transformations of \<open>process_file\<close>, in its order\<close>
  "p1_pipeline content =
     (let content = apply_phase1_imports content;
          content = add_request_tracking_to_get content;
          content = replace_pagination_calls content
      in replace_error_responses content)"

definition p1_process_file :: "string \<Rightarrow> world \<Rightarrow> (exn + bool) \<times> world" where
  \<comment> \<open>\<open>process_file\<close> of apply-phase1-standards.py, which has no \<open>try\<close>\<close>
  "p1_process_file file_path w =
     (if \<not> exists file_path w then (Inr False, print (FileNotFound file_path) w)
      else
        (case read_file file_path (print (Processing file_path) w) of
           (Inl e, w) \<Rightarrow> (Inl e, w)
         | (Inr content, w) \<Rightarrow>
             (let original_content = content in
              case p1_pipeline content of
                Inl e \<Rightarrow> (Inl e, w)
              | Inr content \<Rightarrow>
                  if content \<noteq> original_content
                  then (Inr True, print (Updated file_path) (write_file file_path content w))
                  else (Inr False, print (NoChanges file_path) w))))"

fun p1_loop :: "string list \<Rightarrow> nat \<Rightarrow> world \<Rightarrow> (exn + nat) \<times> world" where
  \<comment> \<open>the \<open>for\<close> loop of \<open>main\<close>: an exception of \<open>process_file\<close> leaves the loop\<close>
  "p1_loop [] updated_count w = (Inr updated_count, w)"
| "p1_loop (file_config # rest) updated_count w =
     (case p1_process_file file_config w of
        (Inl e, w) \<Rightarrow> (Inl e, w)
      | (Inr b, w) \<Rightarrow> p1_loop rest (if b then updated_count + 1 else updated_count) w)"

definition p1_main :: "world \<Rightarrow> (exn + unit) \<times> world" where
  "p1_main w =
     (case p1_loop FILES_TO_UPDATE 0 w of
        (Inl e, w) \<Rightarrow> (Inl e, w)
      | (Inr updated_count, w) \<Rightarrow>
          (Inr (), print (Summary [updated_count, length FILES_TO_UPDATE]) w))"

section \<open>update-phase1-endpoints.py\<close>

definition IMPORT_correlation :: string where
  "IMPORT_correlation =
     ''import { getRequestId, logRequest, logResponse } from '@/middleware/correlation';''"

definition IMPORT_rateLimit :: string where
  "IMPORT_rateLimit =
     ''import { addRateLimitHeaders, globalRateLimitTracker } from '@/middleware/rateLimit';''"

definition IMPORT_response :: string where
  "IMPORT_response =
     ''import { standardErrorResponse, validationErrorResponse, ErrorCodes, addStandardHeaders } from '@/lib/response';''"

definition IMPORT_pagination :: string where
  "IMPORT_pagination =
     ''import { parseStandardPaginationParams, buildStandardListResponse } from '@/lib/pagination';''"

definition RATE_LIMITS :: "(string \<times> nat \<times> nat) list" where
  "RATE_LIMITS =
     [(''GET'', 100, 3600), (''POST'', 50, 3600), (''PUT'', 50, 3600),
      (''PATCH'', 50, 3600), (''DELETE'', 20, 3600)]"

definition METHODS :: "string list" where
  \<comment> \<open>the list both \<open>update_file\<close> and \<open>migrate_endpoint\<close> iterate over\<close>
  "METHODS = [''GET'', ''POST'', ''PUT'', ''PATCH'', ''DELETE'']"

fun str_nat :: "nat \<Rightarrow> string" where
  \<comment> \<open>the decimal text of a number, as an f-string prints it\<close>
  "str_nat n =
     (if n < 10 then [char_of (48 + n)] else str_nat (n div 10) @ [char_of (48 + n mod 10)])"

fun last_import :: "nat \<Rightarrow> nat \<Rightarrow> string list \<Rightarrow> nat" where
  \<comment> \<open>the loop that keeps the index of the last line starting, once stripped, with
      \<open>import\<close> and a space\<close>
  "last_import i last_import_idx [] = last_import_idx"
| "last_import i last_import_idx (line # lines) =
     last_import (Suc i) (if prefix ''import '' (strip line) then i else last_import_idx) lines"

fun replace_response_line :: "string list \<Rightarrow> string list option" where
  \<comment> \<open>the \<open>for\<close> ... \<open>break\<close> loop over the lines: the first line of the old response import
      becomes the required one; \<open>None\<close> when the loop ends without \<open>break\<close>\<close>
  "replace_response_line [] = None"
| "replace_response_line (line # lines) =
     (if sublist ''@/lib/response'' line \<and> \<not> sublist ''standardErrorResponse'' line
      then Some (IMPORT_response # lines)
      else map_option (Cons line) (replace_response_line lines))"

fun insert_imports :: "string list \<Rightarrow> string \<Rightarrow> nat \<Rightarrow> string list \<Rightarrow> string list" where
  \<comment> \<open>the loop over the imports to add (already reversed by the caller)\<close>
  "insert_imports [] content last_import_idx lines = lines"
| "insert_imports (imp # imps) content last_import_idx lines =
     insert_imports imps content last_import_idx
       (if \<not> sublist imp content then insert_at (last_import_idx + 1) imp lines else lines)"

definition add_imports :: "string \<Rightarrow> string \<Rightarrow> string" where
  "add_imports content file_path =
     (let lines = split_str ''\<newline>'' content;
          last_import_idx = last_import 0 0 lines;
          imports_to_add = [];
          imports_to_add =
            (if \<not> sublist ''getRequestId'' content \<or> \<not> sublist ''logResponse'' content
             then imports_to_add @ [IMPORT_correlation] else imports_to_add);
          imports_to_add =
            (if \<not> sublist ''globalRateLimitTracker'' content
             then imports_to_add @ [IMPORT_rateLimit] else imports_to_add);
          (lines, imports_to_add) =
            (if (\<not> sublist ''standardErrorResponse'' content \<or> sublist ''errorResponse('' content)
                \<and> \<not> sublist IMPORT_response content
             then (case replace_response_line lines of
                     Some lines' \<Rightarrow> (lines', imports_to_add)
                   | None \<Rightarrow> (lines, imports_to_add @ [IMPORT_response]))
             else (lines, imports_to_add));
          imports_to_add =
            (if sublist ''route.ts'' file_path \<and> \<not> sublist ''[id]'' file_path
                \<and> \<not> sublist ''parseStandardPaginationParams'' content
             then imports_to_add @ [IMPORT_pagination] else imports_to_add);
          lines = insert_imports (rev imports_to_add) content last_import_idx lines
      in join ''\<newline>'' lines)"

definition method_start :: "string \<Rightarrow> rx list" where
  \<comment> \<open>\<open>export async function {method}\s*\([^)]+\)\s*\{\<close>; the method is one of
      \<^const>\<open>METHODS\<close>, a plain word\<close>
  "method_start method =
     [Lit (''export async function '' @ method), Star is_space, Lit ''('', Plus (not_in '')''),
      Lit '')'', Star is_space, Lit ''{'']"

definition phase1_init :: string where
  "phase1_init =
     ''\<newline>  const requestId = getRequestId(request);\<newline>  const startTime = Date.now();\<newline>''"

definition update_method_handler :: "string \<Rightarrow> string \<Rightarrow> string" where
  \<comment> \<open>the third parameter, \<open>is_list_endpoint\<close>, is never read\<close>
  "update_method_handler content method =
     (case re_search (method_start method) content of
        None \<Rightarrow> content
      | Some (a, ps, b) \<Rightarrow>
          if sublist ''const requestId = getRequestId(request);'' (take 500 b) then content
          else a @ concat ps @ phase1_init @ b)"

definition auth_result :: string where
  \<comment> \<open>\<open>const \{ tenantId, user \} = authResult;\<close>, a pattern without any operator\<close>
  "auth_result = ''const { tenantId, user } = authResult;''"

definition key_suffix :: "string \<Rightarrow> string" where
  "key_suffix method =
     (if method = ''GET'' then ''''
      else if method = ''POST'' then ''_create''
      else if method \<in> set [''PUT'', ''PATCH''] then ''_update''
      else if method = ''DELETE'' then ''_delete''
      else '''')"

definition rate_limit_code :: "nat \<Rightarrow> nat \<Rightarrow> string \<Rightarrow> string" where
  "rate_limit_code limit window sfx =
     ''\<newline>\<newline>'' @
     ''    // Rate limiting ('' @ str_nat limit @ '' requests per hour per user)\<newline>'' @
     ''    const rateLimit = globalRateLimitTracker.trackRequest(\<newline>'' @
     ''      `user_${user.userId}'' @ sfx @ ''`,\<newline>'' @
     ''      '' @ str_nat limit @ '',\<newline>'' @
     ''      '' @ str_nat window @ ''\<newline>'' @
     ''    );\<newline>'' @
     ''\<newline>'' @
     ''    if (rateLimit.remaining === 0) {\<newline>'' @
     ''      const minutesLeft = Math.ceil((rateLimit.reset - Math.floor(Date.now() / 1000)) / 60);\<newline>'' @
     ''      return standardErrorResponse(\<newline>'' @
     ''        ErrorCodes.RATE_LIMIT_EXCEEDED,\<newline>'' @
     ''        `Rate limit exceeded. Try again in ${minutesLeft} minutes.`,\<newline>'' @
     ''        429,\<newline>'' @
     ''        undefined,\<newline>'' @
     ''        requestId\<newline>'' @
     ''      );\<newline>'' @
     ''    }\<newline>''"

definition add_rate_limiting :: "string \<Rightarrow> string \<Rightarrow> string" where
  "add_rate_limiting content method =
     (case re_search [Lit auth_result] content of
        None \<Rightarrow> content
      | Some (a, ps, b) \<Rightarrow>
          if sublist ''globalRateLimitTracker.trackRequest'' content then content
          else
            (let (limit, window) = (case map_of RATE_LIMITS method of
                                      Some lw \<Rightarrow> lw | None \<Rightarrow> (100, 3600))
             in a @ concat ps @ rate_limit_code limit window (key_suffix method) @ b))"

definition json_return :: "rx list" where
  \<comment> \<open>\<open>return NextResponse\.json\(([^)]+)\);\<close>\<close>
  "json_return = [Lit ''return NextResponse.json('', GOpen, Plus (not_in '')''), GClose, Lit '');'']"

definition headers_code :: string where
  "headers_code = '');\<newline>    addStandardHeaders(response, requestId);\<newline>    return response;''"

definition update_response_headers :: "string \<Rightarrow> string" where
  "update_response_headers content =
     re_sub json_return
       (\<lambda>ps. ''const response = NextResponse.json('' @ group json_return ps 1 @ headers_code)
       content"

definition problem_call :: "string \<Rightarrow> rx list" where
  \<comment> \<open>\<open>errorResponse\(KIND\(['"]([^'"]+)['"],\s*[^\)]+\)\)\<close> for the three kinds of
      problem\<close>
  "problem_call kind =
     [Lit (''errorResponse('' @ kind @ ''(''), One quote_char, GOpen,
      Plus (not_in [CHR 0x27, CHR 0x22]), GClose, One quote_char, Lit '','', Star is_space,
      Plus (not_in '')''), Lit ''))'']"

definition standard_error :: "string \<Rightarrow> string \<Rightarrow> string \<Rightarrow> string" where
  "standard_error code message status =
     ''standardErrorResponse(ErrorCodes.'' @ code @ '', '' @ [CHR 0x27] @ message @ [CHR 0x27] @
     '', '' @ status @ '', undefined, requestId)''"

definition internal_error_any :: "rx list" where
  \<comment> \<open>\<open>errorResponse\(internalServerErrorProblem\([^\)]+\)\)\<close>\<close>
  "internal_error_any =
     [Lit ''errorResponse(internalServerErrorProblem('', Plus (not_in '')''), Lit ''))'']"

definition success_return :: "rx list" where
  \<comment> \<open>\<open>return successResponse\(([^)]+)\);\<close>\<close>
  "success_return = [Lit ''return successResponse('', GOpen, Plus (not_in '')''), GClose, Lit '');'']"

definition replace_old_error_functions :: "string \<Rightarrow> string" where
  "replace_old_error_functions content =
     (let content = re_sub (problem_call ''notFoundProblem'')
            (\<lambda>ps. standard_error ''NOT_FOUND'' (group (problem_call ''notFoundProblem'') ps 1) ''404'')
            content;
          content = re_sub (problem_call ''badRequestProblem'')
            (\<lambda>ps. standard_error ''VALIDATION_ERROR''
                     (group (problem_call ''badRequestProblem'') ps 1) ''400'')
            content;
          content = re_sub (problem_call ''internalServerErrorProblem'')
            (\<lambda>ps. standard_error ''INTERNAL_ERROR''
                     (group (problem_call ''internalServerErrorProblem'') ps 1) ''500'')
            content;
          content = re_sub internal_error_any
            (\<lambda>ps. standard_error ''INTERNAL_ERROR'' ''An unexpected error occurred'' ''500'')
            content
      in re_sub success_return
           (\<lambda>ps. ''const response = NextResponse.json('' @ group success_return ps 1 @ headers_code)
           content)"

definition catch_block :: "rx list" where
  \<comment> \<open>\<open>} catch \(error[^{]*\{([^}]*console\.error[^}]*)\<close> with \<open>re.DOTALL\<close>\<close>
  "catch_block =
     [Lit ''} catch (error'', Star (not_in ''{''), Lit ''{'', GOpen, Star (not_in ''}''),
      Lit ''console.error'', Star (not_in ''}''), GClose]"

definition log_code :: string where
  "log_code =
     ''logResponse(requestId, 500, Date.now() - startTime, {\<newline>'' @
     ''      error: error.message,\<newline>'' @
     ''    });\<newline>'' @
     ''\<newline>'' @
     ''    console.error''"

definition add_log :: "string list \<Rightarrow> string" where
  "add_log ps =
     (let catch_body = group catch_block ps 1;
          catch_body = (if \<not> sublist ''logResponse'' catch_body
                        then str_replace ''console.error'' log_code catch_body else catch_body)
      in ''} catch (error: any) {'' @ catch_body)"

definition add_logging_to_catch :: "string \<Rightarrow> string" where
  "add_logging_to_catch content = re_sub catch_block add_log content"

fun update_methods :: "string list \<Rightarrow> string \<Rightarrow> string" where
  \<comment> \<open>step 3 of \<open>update_file\<close>: the loop over the methods\<close>
  "update_methods [] content = content"
| "update_methods (method # methods) content =
     update_methods methods
       (if sublist (''export async function '' @ method) content
        then add_rate_limiting (update_method_handler content method) method
        else content)"

definition update_pipeline :: "string \<Rightarrow> string \<Rightarrow> string" where
  \<comment> \<open>steps 1 to 5 of \<open>update_file\<close>\<close>
  "update_pipeline content file_path =
     (let content = add_imports content file_path;
          content = replace_old_error_functions content;
          content = update_methods METHODS content;
          content = add_logging_to_catch content
      in update_response_headers content)"

definition update_file :: "string \<Rightarrow> world \<Rightarrow> bool \<times> world" where
  \<comment> \<open>the whole body is inside \<open>try\<close>; \<open>except Exception\<close> prints and returns \<open>False\<close>\<close>
  "update_file file_path w =
     (case read_file file_path w of
        (Inl e, w) \<Rightarrow> (False, print (ErrorIn file_path e) w)
      | (Inr content, w) \<Rightarrow>
          (let original_content = content in
           if list_all (\<lambda>marker. sublist marker content)
                [''getRequestId(request)'', ''standardErrorResponse'', ''addStandardHeaders'']
              \<and> \<not> sublist ''errorResponse('' content
           then (False, print (AlreadyUpdated file_path) w)
           else
             (let content = update_pipeline content file_path in
              if content \<noteq> original_content
              then (True, print (Updated file_path) (write_file file_path content w))
              else (False, print (NoChanges file_path) w))))"

section \<open>migrate-endpoints.py\<close>

fun rename_imports :: "string list \<Rightarrow> string list" where
  \<comment> \<open>the first loop of \<open>update_pagination_imports\<close>\<close>
  "rename_imports [] = []"
| "rename_imports (imp # imports) =
     (if sublist ''parsePaginationParams'' imp
      then ''parseStandardPaginationParams'' # rename_imports imports
      else if sublist ''buildPagedResponse'' imp
      then ''buildStandardListResponse'' # rename_imports imports
      else if strip imp \<notin> set [''parseStandardPaginationParams'', ''buildStandardListResponse'']
      then strip imp # rename_imports imports
      else rename_imports imports)"

fun dedup :: "string list \<Rightarrow> string list \<Rightarrow> string list" where
  \<comment> \<open>the second loop: the first occurrence of each name is kept\<close>
  "dedup seen [] = []"
| "dedup seen (imp # new_imports) =
     (if imp \<notin> set seen then imp # dedup (imp # seen) new_imports else dedup seen new_imports)"

definition update_pagination_imports :: "string \<Rightarrow> string" where
  "update_pagination_imports imports_str =
     join '', '' (dedup [] (rename_imports (map strip (split_str '','' imports_str))))"

definition pagination_import :: "rx list" where
  \<comment> \<open>\<open>from ['"]@/lib/pagination['"] import \{([^}]+)\}\<close>\<close>
  "pagination_import =
     [Lit ''from '', One quote_char, Lit ''@/lib/pagination'', One quote_char, Lit '' import {'',
      GOpen, Plus (not_in ''}''), GClose, Lit ''}'']"

definition response_import :: "rx list" where
  \<comment> \<open>\<open>from ['"]@/lib/response['"] import \{([^}]+)\}\<close>\<close>
  "response_import =
     [Lit ''from '', One quote_char, Lit ''@/lib/response'', One quote_char, Lit '' import {'',
      GOpen, Plus (not_in ''}''), GClose, Lit ''}'']"

definition import_line :: "rx list" where
  \<comment> \<open>\<open>import .+ from ['"][^'"]+ ['"];?\n\<close>\<close>
  "import_line =
     [Lit ''import '', Plus not_newline, Lit '' from '', One quote_char,
      Plus (not_in [CHR 0x27, CHR 0x22]), Lit '' '', One quote_char, Opt [Lit '';''],
      Lit ''\<newline>'']"

definition next_request_import :: "rx list" where
  \<comment> \<open>\<open>import \{ NextRequest \} from ['"]next/server['"]\<close>\<close>
  "next_request_import =
     [Lit ''import { NextRequest } from '', One quote_char, Lit ''next/server'', One quote_char]"

definition correlation_import_line :: string where
  "correlation_import_line =
     ''import { getRequestId, logResponse } from '@/middleware/correlation';\<newline>''"

definition update_imports :: "string \<Rightarrow> string" where
  "update_imports content =
     (let content = re_sub pagination_import
            (\<lambda>ps. ''from '@/lib/pagination' import { '' @
                   update_pagination_imports (group pagination_import ps 1) @ '' }'')
            content;
          content = re_sub response_import
            (\<lambda>ps. ''from '@/lib/response' import { standardErrorResponse, notFoundErrorResponse, validationErrorResponse, ErrorCodes }'')
            content;
          content =
            (if \<not> sublist (''from '@/middleware/correlation'' @ [CHR 0x27]) content
             then (case rev (re_finditer import_line 0 content) of
                     [] \<Rightarrow> content
                   | (i, ps) # earlier \<Rightarrow>
                       str_replace (concat ps) (concat ps @ correlation_import_line) content)
             else content)
      in if \<not> sublist ''NextResponse'' content
            \<and> sublist (''from 'next/server'' @ [CHR 0x27]) content
         then re_sub next_request_import
                (\<lambda>ps. ''import { NextRequest, NextResponse } from 'next/server'' @ [CHR 0x27])
                content
         else content)"

definition handler_start :: "string \<Rightarrow> rx list" where
  \<comment> \<open>\<open>export async function {handler_name}\([^)]+\)\s*\{\<close>; the name is one of
      \<^const>\<open>METHODS\<close>\<close>
  "handler_start handler_name =
     [Lit (''export async function '' @ handler_name @ ''(''), Plus (not_in '')''), Lit '')'',
      Star is_space, Lit ''{'']"

definition add_request_correlation_to_handler :: "string \<Rightarrow> string \<Rightarrow> string" where
  "add_request_correlation_to_handler content handler_name =
     (if sublist ''const requestId = getRequestId(request)'' content then content
      else re_sub (handler_start handler_name) (\<lambda>ps. concat ps @ tracking_code) content)"

definition not_found_return :: "rx list" where
  \<comment> \<open>\<open>return errorResponse\(notFoundProblem\(['"]([^'"]+ not found)['"](?:, [^)]+)?\)\)\<close>\<close>
  "not_found_return =
     [Lit ''return errorResponse(notFoundProblem('', One quote_char, GOpen,
      Plus (not_in [CHR 0x27, CHR 0x22]), Lit '' not found'', GClose, One quote_char,
      Opt [Lit '', '', Plus (not_in '')'')], Lit ''))'']"

definition internal_error_return :: "rx list" where
  \<comment> \<open>\<open>return errorResponse\(\s*internalServerErrorProblem\([^)]+\)\s*\)\<close>\<close>
  "internal_error_return =
     [Lit ''return errorResponse('', Star is_space, Lit ''internalServerErrorProblem('',
      Plus (not_in '')''), Lit '')'', Star is_space, Lit '')'']"

definition problem_message :: "rx list" where
  \<comment> \<open>\<open>internalServerErrorProblem\(['"]([^'"]+)['"]\<close>\<close>
  "problem_message =
     [Lit ''internalServerErrorProblem('', One quote_char, GOpen,
      Plus (not_in [CHR 0x27, CHR 0x22]), GClose, One quote_char]"

definition extract_error_message :: "string \<Rightarrow> string" where
  "extract_error_message error_call =
     (case re_search problem_message error_call of
        Some (a, ps, b) \<Rightarrow> [CHR 0x27] @ group problem_message ps 1 @ [CHR 0x27]
      | None \<Rightarrow> [CHR 0x27] @ ''An error occurred'' @ [CHR 0x27])"

definition update_success_response :: "string \<Rightarrow> string" where
  "update_success_response response_data =
     ''NextResponse.json('' @ response_data @
     '');\<newline>    response.headers.set('X-Request-Id', requestId);\<newline>    return response''"

definition success_call :: "rx list" where
  \<comment> \<open>\<open>return successResponse\(([^,)]+)\)\<close>\<close>
  "success_call = [Lit ''return successResponse('', GOpen, Plus (not_in '',)''), GClose, Lit '')'']"

definition authentication_error :: string where
  "authentication_error =
     ''return standardErrorResponse(\<newline>'' @
     ''        ErrorCodes.AUTHENTICATION_REQUIRED,\<newline>'' @
     ''        tenantResult.error.detail || 'Authentication required',\<newline>'' @
     ''        tenantResult.error.status,\<newline>'' @
     ''        undefined,\<newline>'' @
     ''        requestId\<newline>'' @
     ''      )''"

definition update_error_responses :: "string \<Rightarrow> string" where
  "update_error_responses content =
     (let content = re_sub [Lit ''return errorResponse(tenantResult.error)'']
            (\<lambda>ps. authentication_error) content;
          content = re_sub not_found_return
            (\<lambda>ps. ''return notFoundErrorResponse('' @ [CHR 0x27] @ group not_found_return ps 1 @
                   [CHR 0x27] @ '', requestId)'')
            content;
          content = re_sub internal_error_return
            (\<lambda>ps. ''return standardErrorResponse(\<newline>      ErrorCodes.INTERNAL_ERROR,\<newline>      '' @
                   extract_error_message (group internal_error_return ps 0) @
                   '',\<newline>      500,\<newline>      undefined,\<newline>      requestId\<newline>    )'')
            content
      in re_sub success_call (\<lambda>ps. update_success_response (group success_call ps 1)) content)"

definition paged_response_call :: "rx list" where
  \<comment> \<open>\<open>buildPagedResponse\(([^,]+),\s*([^,]+),\s*([^,]+),\s*([^)]+)\)\<close>\<close>
  "paged_response_call =
     [Lit ''buildPagedResponse('', GOpen, Plus (not_in '',''), GClose, Lit '','', Star is_space,
      GOpen, Plus (not_in '',''), GClose, Lit '','', Star is_space,
      GOpen, Plus (not_in '',''), GClose, Lit '','', Star is_space,
      GOpen, Plus (not_in '')''), GClose, Lit '')'']"

definition update_pagination_calls :: "string \<Rightarrow> string" where
  "update_pagination_calls content =
     (let content = re_sub [Lit ''parsePaginationParams(''] (\<lambda>ps. ''parseStandardPaginationParams('')
            content
      in re_sub paged_response_call
           (\<lambda>ps. ''buildStandardListResponse('' @ group paged_response_call ps 1 @ '', '' @
                  group paged_response_call ps 2 @ '', '' @ group paged_response_call ps 3 @ '', '' @
                  group paged_response_call ps 4 @ '', baseUrl, appliedFilters)'')
           content)"

fun correlate_handlers :: "string list \<Rightarrow> string \<Rightarrow> string" where
  \<comment> \<open>the loop of \<open>migrate_endpoint\<close> over the handlers\<close>
  "correlate_handlers [] content = content"
| "correlate_handlers (handler # handlers) content =
     correlate_handlers handlers
       (if sublist (''export async function '' @ handler) content
        then add_request_correlation_to_handler content handler else content)"

definition migrate_pipeline :: "string \<Rightarrow> string" where
  "migrate_pipeline content =
     (let content = update_imports content;
          content = correlate_handlers METHODS content;
          content = update_pagination_calls content
      in update_error_responses content)"

definition migrate_endpoint :: "string \<Rightarrow> world \<Rightarrow> bool \<times> world" where
  \<comment> \<open>after the existence test the body is inside \<open>try\<close>; \<open>except Exception\<close> prints and
      returns \<open>False\<close>\<close>
  "migrate_endpoint file_path w =
     (let w = print (Migrating file_path) w in
      if \<not> exists file_path w then (False, print (FileNotFound file_path) w)
      else
        (case read_file file_path w of
           (Inl e, w) \<Rightarrow> (False, print (ErrorIn file_path e) w)
         | (Inr content, w) \<Rightarrow>
             if sublist ''parseStandardPaginationParams'' content \<or> sublist ''getRequestId'' content
             then (True, print (AlreadyMigrated file_path) w)
             else
               (let original_content = content;
                    content = migrate_pipeline content in
                if content \<noteq> original_content
                then (True, print (Updated file_path) (write_file file_path content w))
                else (True, print (NoChanges file_path) w))))"

section \<open>apply-rbac.py\<close>

definition RESOURCE_MAP :: "(string \<times> string) list" where
  "RESOURCE_MAP =
     [(''/api/quotations'', ''quotations''), (''/api/clients'', ''clients''),
      (''/api/bookings'', ''bookings''), (''/api/invoices'', ''invoices''),
      (''/api/reports'', ''reports''), (''/api/users'', ''users''),
      (''/api/agents'', ''agents''), (''/api/providers'', ''providers''),
      (''/api/hotels'', ''providers''), (''/api/guides'', ''providers''),
      (''/api/vehicles'', ''providers''), (''/api/restaurants'', ''providers''),
      (''/api/transfers'', ''providers''), (''/api/suppliers'', ''providers''),
      (''/api/requests'', ''requests''), (''/api/finance'', ''finance''),
      (''/api/admin'', ''admin''), (''/api/dashboard'', ''dashboard''),
      (''/api/hotel-pricing'', ''pricing''), (''/api/guide-pricing'', ''pricing''),
      (''/api/vehicle-pricing'', ''pricing''), (''/api/tour-pricing'', ''pricing''),
      (''/api/entrance-fee-pricing'', ''pricing''), (''/api/entrance-fees'', ''providers''),
      (''/api/daily-tours'', ''providers''), (''/api/extra-expenses'', ''providers'')]"

definition METHOD_TO_ACTION :: "(string \<times> string) list" where
  \<comment> \<open>a \<open>dict\<close>, iterated in the order of its literal\<close>
  "METHOD_TO_ACTION =
     [(''GET'', ''read''), (''POST'', ''create''), (''PUT'', ''update''),
      (''PATCH'', ''update''), (''DELETE'', ''delete'')]"

definition SKIP_PATHS :: "string list" where
  "SKIP_PATHS = [''/api/auth'', ''/api/health'', ''/api/roles'', ''/api/audit-logs'']"

definition api_path_of :: "string \<Rightarrow> string" where
  \<comment> \<open>\<open>f'/api/{api_segment}'\<close> with
      \<open>api_segment = path_str.split('/api/')[1].split('/')[0]\<close>; the caller has tested that
      \<open>/api/\<close> occurs, so the first split has a second part, and a split is never empty\<close>
  "api_path_of path_str =
     ''/api/'' @ hd (split_str ''/'' (split_str ''/api/'' path_str ! 1))"

definition get_resource_from_path :: "string \<Rightarrow> string option" where
  "get_resource_from_path path_str =
     (if sublist ''/api/'' path_str then
        (let api_path = api_path_of path_str in
         if \<exists>skip \<in> set SKIP_PATHS. sublist skip api_path then None
         else map_of RESOURCE_MAP api_path)
      else None)"

definition should_add_import :: "string \<Rightarrow> bool" where
  "should_add_import content = (\<not> sublist ''requirePermission'' content)"

definition should_replace_tenant :: "string \<Rightarrow> bool" where
  "should_replace_tenant content = sublist ''requireTenant'' content"

definition tenant_import :: "rx list" where
  \<comment> \<open>\<open>import\s+{\s*requireTenant\s*}\s+from\s+['\"]@/middleware/tenancy['\"];?\<close>\<close>
  "tenant_import =
     [Lit ''import'', Plus is_space, Lit ''{'', Star is_space, Lit ''requireTenant'',
      Star is_space, Lit ''}'', Plus is_space, Lit ''from'', Plus is_space, One quote_char,
      Lit ''@/middleware/tenancy'', One quote_char, Opt [Lit '';'']]"

definition permission_import :: string where
  "permission_import = ''import { requirePermission } from '@/middleware/permissions';''"

definition replace_import :: "string \<Rightarrow> string" where
  "replace_import content = re_sub tenant_import (\<lambda>ps. permission_import) content"

definition at_import :: "rx list" where
  \<comment> \<open>\<open>(import\s+{[^}]+}\s+from\s+['\"]@/[^'\"]+['\"];?\s*\n)\<close>\<close>
  "at_import =
     [GOpen, Lit ''import'', Plus is_space, Lit ''{'', Plus (not_in ''}''), Lit ''}'',
      Plus is_space, Lit ''from'', Plus is_space, One quote_char, Lit ''@/'',
      Plus (not_in [CHR 0x27, CHR 0x22]), One quote_char, Opt [Lit '';''], Star is_space,
      Lit ''\<newline>'', GClose]"

definition add_import :: "string \<Rightarrow> string" where
  "add_import content =
     (if should_add_import content then
        (case rev (re_finditer at_import 0 content) of
           [] \<Rightarrow> content
         | (i, ps) # earlier \<Rightarrow>
             (let insert_pos = i + length (concat ps);
                  new_import = permission_import @ ''\<newline>''
              in take insert_pos content @ new_import @ drop insert_pos content))
      else content)"

definition rbac_method :: "string \<Rightarrow> rx list" where
  \<comment> \<open>\<open>export\s+async\s+function\s+{method_name}\s*\([^)]*\)\s*{[^{]*\<close>; the name is a key
      of \<^const>\<open>METHOD_TO_ACTION\<close>, a plain word\<close>
  "rbac_method method_name =
     [Lit ''export'', Plus is_space, Lit ''async'', Plus is_space, Lit ''function'',
      Plus is_space, Lit method_name, Star is_space, Lit ''('', Star (not_in '')''), Lit '')'',
      Star is_space, Lit ''{'', Star (not_in ''{'')]"

definition tenant_auth :: "rx list" where
  \<comment> \<open>\<open>const\s+\w+Result\s*=\s*await\s+requireTenant\(request\);?\s*if\s*\([^\)]*['"]error['"]\s+in\s+\w+Result[^\)]*\)\s*{[^}]+}[^}]*const\s*{\s*([^}]+)\s*}\s*=\s*\w+Result;?\<close>\<close>
  "tenant_auth =
     [Lit ''const'', Plus is_space, Plus is_word, Lit ''Result'', Star is_space, Lit ''='',
      Star is_space, Lit ''await'', Plus is_space, Lit ''requireTenant(request)'',
      Opt [Lit '';''], Star is_space, Lit ''if'', Star is_space, Lit ''('',
      Star (not_in '')''), One quote_char, Lit ''error'', One quote_char, Plus is_space,
      Lit ''in'', Plus is_space, Plus is_word, Lit ''Result'', Star (not_in '')''), Lit '')'',
      Star is_space, Lit ''{'', Plus (not_in ''}''), Lit ''}'', Star (not_in ''}''),
      Lit ''const'', Star is_space, Lit ''{'', Star is_space, GOpen, Plus (not_in ''}''),
      GClose, Star is_space, Lit ''}'', Star is_space, Lit ''='', Star is_space, Plus is_word,
      Lit ''Result'', Opt [Lit '';'']]"

definition permission_auth :: "string \<Rightarrow> string \<Rightarrow> string \<Rightarrow> string" where
  \<comment> \<open>the replacement text\<close>
  "permission_auth resource_name action vars_match =
     ''const authResult = await requirePermission(request, '' @ [CHR 0x27] @ resource_name @
     [CHR 0x27] @ '', '' @ [CHR 0x27] @ action @ [CHR 0x27] @ '');\<newline>'' @
     ''    if ('error' in authResult) {\<newline>'' @
     ''      return authResult.error;\<newline>'' @
     ''    }\<newline>'' @
     ''    const { '' @ vars_match @ '' } = authResult;''"

definition replace_auth_in_method :: "string \<Rightarrow> string \<Rightarrow> string \<Rightarrow> string \<Rightarrow> string" where
  "replace_auth_in_method content method_name resource_name action =
     (case re_search (rbac_method method_name) content of
        None \<Rightarrow> content
      | Some (before, ms, remaining_content) \<Rightarrow>
          (case re_search tenant_auth remaining_content of
             None \<Rightarrow> content
           | Some (a, ps, b) \<Rightarrow>
               before @ concat ms @ a @
               permission_auth resource_name action (group tenant_auth ps 1) @ b))"

fun replace_methods :: "(string \<times> string) list \<Rightarrow> string \<Rightarrow> string \<Rightarrow> string" where
  \<comment> \<open>step 2 of \<open>process_file\<close>: the loop over the items of the table\<close>
  "replace_methods [] resource_name content = content"
| "replace_methods ((method, action) # items) resource_name content =
     replace_methods items resource_name
       (if sublist (''export async function '' @ method @ ''('') content
        then replace_auth_in_method content method resource_name action
        else content)"

definition rbac_pipeline :: "string \<Rightarrow> string \<Rightarrow> string" where
  "rbac_pipeline content resource_name =
     (let content = (if should_replace_tenant content then replace_import content
                     else add_import content)
      in replace_methods METHOD_TO_ACTION resource_name content)"

definition rbac_process_file :: "string \<Rightarrow> string \<Rightarrow> world \<Rightarrow> bool \<times> world" where
  \<comment> \<open>\<open>process_file\<close> of apply-rbac.py; after the first print the body is inside \<open>try\<close>, and
      \<open>except Exception\<close> prints and returns \<open>False\<close>\<close>
  "rbac_process_file file_path resource_name w =
     (case read_file file_path (print (Processing file_path) w) of
        (Inl e, w) \<Rightarrow> (False, print (ErrorIn file_path e) w)
      | (Inr content, w) \<Rightarrow>
          (let original_content = content;
               content = rbac_pipeline content resource_name in
           if content \<noteq> original_content
           then (True, print (Updated file_path) (write_file file_path content w))
           else (False, print (NoChanges file_path) w)))"

record counts =
  processed :: nat
  updated :: nat
  skipped :: nat

fun rbac_loop :: "string list \<Rightarrow> counts \<Rightarrow> world \<Rightarrow> counts \<times> world" where
  \<comment> \<open>the \<open>for\<close> loop of \<open>main\<close> over the route files found\<close>
  "rbac_loop [] n w = (n, w)"
| "rbac_loop (route_file # route_files) n w =
     (case get_resource_from_path route_file of
        None \<Rightarrow> rbac_loop route_files (n\<lparr>skipped := skipped n + 1\<rparr>) (print (Skipping route_file) w)
      | Some resource \<Rightarrow>
          (case rbac_process_file route_file resource w of
             (b, w) \<Rightarrow>
               rbac_loop route_files
                 (n\<lparr>updated := (if b then updated n + 1 else updated n),
                    processed := processed n + 1\<rparr>) w))"

definition rbac_main :: "string list \<Rightarrow> world \<Rightarrow> world" where
  \<comment> \<open>\<open>main\<close> once the API directory exists; \<open>route_files\<close> is what
      \<open>base_path.rglob('route.ts')\<close> lists\<close>
  "rbac_main route_files w =
     (case rbac_loop route_files \<lparr>processed = 0, updated = 0, skipped = 0\<rparr> w of
        (n, w) \<Rightarrow> print (Summary [length route_files, processed n, updated n, skipped n]) w)"

section \<open>Lemmas on strings and patterns\<close>

subsection \<open>Replacing and splitting\<close>

text \<open>\<open>s.replace(old, new)\<close> is \<open>new.join(s.split(old))\<close>, and joining a split gives the text back.\<close>

lemma split_str_not_Nil: "split_str sep s \<noteq> []"
  by (induction sep s rule: split_str.induct) (auto simp: neq_Nil_conv elim: grow.elims)

lemma join_grow: "ls \<noteq> [] \<Longrightarrow> join sep (grow x ls) = x # join sep ls"
proof (cases ls)
  case Nil
  assume "ls \<noteq> []"
  with Nil show ?thesis by simp
next
  case (Cons l rest)
  then show ?thesis by (cases rest) auto
qed

lemma prefix_drop_pred:
  assumes "sep \<noteq> []" and "prefix sep (x # xs)"
  shows "sep @ drop (length sep - 1) xs = x # xs"
proof -
  from assms(2) obtain r where r: "x # xs = sep @ r"
    by (auto simp: prefix_def)
  with assms(1) obtain t where t: "sep = x # t"
    by (cases sep) auto
  with r have "xs = t @ r" by simp
  with t r show ?thesis by simp
qed

lemma join_Cons: "ls \<noteq> [] \<Longrightarrow> join sep (l # ls) = l @ sep @ join sep ls"
  by (cases ls) auto

lemma join_split_str: "sep \<noteq> [] \<Longrightarrow> join sep (split_str sep s) = s"
proof (induction sep s rule: split_str.induct)
  case (1 sep)
  then show ?case by simp
next
  case (2 sep x xs)
  show ?case
  proof (cases "prefix sep (x # xs)")
    case True
    with 2 have "join sep (split_str sep (drop (length sep - 1) xs)) = drop (length sep - 1) xs"
      by simp
    with True prefix_drop_pred [OF "2.prems" True] show ?thesis
      by (simp add: join_Cons split_str_not_Nil)
  next
    case False
    with 2 show ?thesis
      by (simp add: join_grow split_str_not_Nil)
  qed
qed

lemma str_replace_ne_join:
  "old \<noteq> [] \<Longrightarrow> str_replace_ne old new s = join new (split_str old s)"
proof (induction old s rule: split_str.induct)
  case (1 sep)
  then show ?case by simp
next
  case (2 sep x xs)
  show ?case
  proof (cases "prefix sep (x # xs)")
    case True
    with 2 show ?thesis
      by (simp add: join_Cons split_str_not_Nil)
  next
    case False
    with 2 show ?thesis
      by (simp add: join_grow split_str_not_Nil)
  qed
qed

lemma str_replace_join: "old \<noteq> [] \<Longrightarrow> str_replace old new s = join new (split_str old s)"
  by (simp add: str_replace_def str_replace_ne_join)

subsection \<open>Matching and substituting\<close>







lemma re_search_Lit_none:
  "a \<noteq> [] \<Longrightarrow> \<not> sublist a s \<Longrightarrow> re_search [Lit a] s = None"
proof (induction s)
  case Nil
  then show ?case by simp
next
  case (Cons x s)
  then have "\<not> prefix a (x # s)" and "\<not> sublist a s"
    by (auto simp: sublist_Cons_right)
  with Cons show ?case by simp
qed

lemma prefix_before_occurrence:
  assumes "prefix a (u @ a @ post)" and "u \<noteq> []"
  shows "sublist a (u @ butlast a)"
proof (cases "a = []")
  case True
  then show ?thesis by simp
next
  case False
  then have a: "a = butlast a @ [last a]" by simp
  have "prefix (u @ butlast a) (u @ a @ post)"
    by (subst a) (simp add: prefix_def)
  moreover have "length a \<le> length (u @ butlast a)"
    using assms(2) by (cases u) auto
  ultimately have "prefix a (u @ butlast a)"
    using assms(1) by (metis prefix_length_prefix)
  then show ?thesis by (rule prefix_imp_sublist)
qed

lemma re_search_Lit_first:
  "a \<noteq> [] \<Longrightarrow> \<not> sublist a (pre @ butlast a) \<Longrightarrow>
   re_search [Lit a] (pre @ a @ post) = Some (pre, [a], post)"
proof (induction pre)
  case Nil
  then obtain x a' where "a = x # a'" by (cases a) auto
  then show ?case by simp
next
  case (Cons y pre)
  have "\<not> prefix a ((y # pre) @ a @ post)"
    using prefix_before_occurrence [of a "y # pre" post] Cons.prems(2) by auto
  moreover have "\<not> sublist a (pre @ butlast a)"
    using Cons.prems(2) by (auto simp: sublist_Cons_right)
  ultimately show ?case
    using Cons.IH Cons.prems(1) by simp
qed

section \<open>Properties\<close>

subsection \<open>Idempotence (C1)\<close>

text \<open>
  C1: every rule is idempotent, and in particular a second run of
  \<open>add_request_tracking_to_get\<close> on its own output inserts nothing new.  The rule has no
  guard: its pattern matches the signature it has already treated.  On a file holding
  one \<open>GET\<close> handler the first run inserts the two bindings and the second run inserts
  them once more, so the handler declares \<open>requestId\<close> and \<open>startTime\<close> twice.
\<close>

theorem add_request_tracking_to_get_runs_twice:
  "add_request_tracking_to_get
     (''export async function GET(request: NextRequest) {'' @
      ''\<newline>  return NextResponse.json([]);\<newline>}\<newline>'') =
   ''export async function GET(request: NextRequest) {'' @ tracking_code @
   ''\<newline>  return NextResponse.json([]);\<newline>}\<newline>''
   \<and>
   add_request_tracking_to_get
     (''export async function GET(request: NextRequest) {'' @ tracking_code @
      ''\<newline>  return NextResponse.json([]);\<newline>}\<newline>'') =
   ''export async function GET(request: NextRequest) {'' @ tracking_code @ tracking_code @
   ''\<newline>  return NextResponse.json([]);\<newline>}\<newline>''"
  by code_simp

subsection \<open>Method and action (C2)\<close>

text \<open>
  C2: for every exported entry point of a file, the injected \<open>requirePermission\<close> call has
  the action of that entry point's method.  \<open>replace_auth_in_method\<close> looks for the
  tenant check in all the text after the method's opening brace, not in the method's body
  alone.  In a file whose \<open>GET\<close> handler has no tenant check and whose \<open>POST\<close> handler
  has one, the pass for \<open>GET\<close> rewrites the check of \<open>POST\<close>, with action \<open>read\<close>; the
  pass for \<open>POST\<close> then finds nothing left to rewrite.
\<close>

theorem rbac_post_handler_gets_read:
  "rbac_pipeline
     (''import { requireTenant } from '@/middleware/tenancy';\<newline>'' @
      ''\<newline>'' @
      ''export async function GET(request: NextRequest) {\<newline>'' @
      ''  return NextResponse.json(await listPublic());\<newline>'' @
      ''}\<newline>'' @
      ''\<newline>'' @
      ''export async function POST(request: NextRequest) {\<newline>'' @
      ''  const authResult = await requireTenant(request);\<newline>'' @
      ''  if ('error' in authResult) {\<newline>'' @
      ''    return authResult.error;\<newline>'' @
      ''  }\<newline>'' @
      ''  const { tenantId } = authResult;\<newline>'' @
      ''  return create(tenantId);\<newline>'' @
      ''}\<newline>'')
     ''users'' =
   ''import { requirePermission } from '@/middleware/permissions';\<newline>'' @
   ''\<newline>'' @
   ''export async function GET(request: NextRequest) {\<newline>'' @
   ''  return NextResponse.json(await listPublic());\<newline>'' @
   ''}\<newline>'' @
   ''\<newline>'' @
   ''export async function POST(request: NextRequest) {\<newline>'' @
   ''  const authResult = await requirePermission(request, 'users', 'read');\<newline>'' @
   ''    if ('error' in authResult) {\<newline>'' @
   ''      return authResult.error;\<newline>'' @
   ''    }\<newline>'' @
   ''    const { tenantId  } = authResult;\<newline>'' @
   ''  return create(tenantId);\<newline>'' @
   ''}\<newline>''"
  by code_simp

subsection \<open>Failure of one file (C3)\<close>

text \<open>
  C3: an exception raised while one file is processed is caught in that file's step and
  the batch goes on.  \<open>process_file\<close> of apply-phase1-standards.py has no \<open>try\<close>, and its
  error rule raises \<open>AttributeError\<close> on an internal-error call without single-quoted
  text.  With such a file first in the list and a second file waiting, the exception
  leaves \<open>process_file\<close> and \<open>main\<close>: the second file is never read and nothing is
  written.
\<close>

theorem p1_main_aborts_on_attribute_error:
  "fst (p1_process_file ''src/app/api/hotels/[id]/route.ts''
     \<lparr>files = [''src/app/api/hotels/[id]/route.ts'' \<mapsto>
                  ''return errorResponse(internalServerErrorProblem(error.message));'',
               ''src/app/api/guides/route.ts'' \<mapsto> ''parsePaginationParams(url)''],
      reads = [], writes = [], out = []\<rparr>) = Inl AttributeError
   \<and>
   (let (r, w) = p1_main
     \<lparr>files = [''src/app/api/hotels/[id]/route.ts'' \<mapsto>
                  ''return errorResponse(internalServerErrorProblem(error.message));'',
               ''src/app/api/guides/route.ts'' \<mapsto> ''parsePaginationParams(url)''],
      reads = [], writes = [], out = []\<rparr>
    in r = Inl AttributeError \<and> reads w = [''src/app/api/hotels/[id]/route.ts'']
       \<and> writes w = [] \<and> out w = [Processing ''src/app/api/hotels/[id]/route.ts''])"
  by code_simp

subsection \<open>Imports (C4)\<close>

text \<open>
  C4: after import normalization each canonical symbol is imported exactly once, whatever
  was imported before.  \<open>add_imports\<close> adds the whole correlation import when one of
  \<open>getRequestId\<close> and \<open>logResponse\<close> is missing from the file.  A file that already imports
  \<open>getRequestId\<close> alone ends with two imports of it.
\<close>

theorem add_imports_imports_getRequestId_twice:
  "add_imports
     (''import { getRequestId } from '@/middleware/correlation';\<newline>'' @
      ''\<newline>'' @
      ''export async function GET(request: NextRequest) {\<newline>'' @
      ''  const requestId = getRequestId(request);\<newline>'' @
      ''}\<newline>'')
     ''src/app/api/hotels/[id]/route.ts'' =
   ''import { getRequestId } from '@/middleware/correlation';\<newline>'' @
   ''import { getRequestId, logRequest, logResponse } from '@/middleware/correlation';\<newline>'' @
   ''import { addRateLimitHeaders, globalRateLimitTracker } from '@/middleware/rateLimit';\<newline>'' @
   ''import { standardErrorResponse, validationErrorResponse, ErrorCodes, addStandardHeaders } from '@/lib/response';\<newline>'' @
   ''\<newline>'' @
   ''export async function GET(request: NextRequest) {\<newline>'' @
   ''  const requestId = getRequestId(request);\<newline>'' @
   ''}\<newline>''"
  by code_simp

theorem add_imports_imports_getRequestId_twice_witness:
  "length (filter (sublist ''getRequestId'')
     (filter (prefix ''import '')
        (split_str ''\<newline>''
           (add_imports
              (''import { getRequestId } from '@/middleware/correlation';\<newline>'' @
               ''\<newline>'' @
               ''export async function GET(request: NextRequest) {\<newline>'' @
               ''  const requestId = getRequestId(request);\<newline>'' @
               ''}\<newline>'')
              ''src/app/api/hotels/[id]/route.ts'')))) = 2"
  unfolding add_imports_imports_getRequestId_twice by code_simp

subsection \<open>Writing only on change (C5)\<close>

lemma p1_process_file_writes:
  "(let w' = snd (p1_process_file p w) in
      (files w' = files w \<and> writes w' = writes w) \<or>
      (\<exists>c c'. files w p = Some c \<and> p1_pipeline c = Inr c' \<and> c' \<noteq> c \<and>
         files w' = (files w)(p \<mapsto> c') \<and> writes w' = (p, c') # writes w))"
  by (auto simp: p1_process_file_def exists_def read_file_def print_def write_file_def Let_def
           split: option.splits sum.splits)

lemma update_file_writes:
  "(let w' = snd (update_file p w) in
      (files w' = files w \<and> writes w' = writes w) \<or>
      (\<exists>c. files w p = Some c \<and> update_pipeline c p \<noteq> c \<and>
         files w' = (files w)(p \<mapsto> update_pipeline c p) \<and>
         writes w' = (p, update_pipeline c p) # writes w))"
  by (auto simp: update_file_def read_file_def print_def write_file_def Let_def
           split: option.splits sum.splits)

text \<open>
  C5: the executor writes a file back only when the output of the pipeline differs from
  the content read, and then writes the whole output.  For \<open>process_file\<close> of
  apply-phase1-standards.py and for \<open>update_file\<close>: after the call either no file has
  changed and nothing was written, or the one write done stores the complete output of
  the pipeline, which differs from the content read, under the path of the task; and
  when the output equals the content read, nothing is written.  A write is one step of
  the model: what the file system does while it writes is outside it.
\<close>

theorem write_only_on_change:
  "(let w' = snd (p1_process_file p w) in
      (files w' = files w \<and> writes w' = writes w) \<or>
      (\<exists>c c'. files w p = Some c \<and> p1_pipeline c = Inr c' \<and> c' \<noteq> c \<and>
         files w' = (files w)(p \<mapsto> c') \<and> writes w' = (p, c') # writes w))
   \<and>
   (let w' = snd (update_file p w) in
      (files w' = files w \<and> writes w' = writes w) \<or>
      (\<exists>c. files w p = Some c \<and> update_pipeline c p \<noteq> c \<and>
         files w' = (files w)(p \<mapsto> update_pipeline c p) \<and>
         writes w' = (p, update_pipeline c p) # writes w))
   \<and>
   (\<forall>c. files w p = Some c \<and> p1_pipeline c = Inr c \<longrightarrow>
      files (snd (p1_process_file p w)) = files w \<and>
      writes (snd (p1_process_file p w)) = writes w)
   \<and>
   (\<forall>c. files w p = Some c \<and> update_pipeline c p = c \<longrightarrow>
      files (snd (update_file p w)) = files w \<and>
      writes (snd (update_file p w)) = writes w)"
proof (intro conjI allI impI)
  show "let w' = snd (p1_process_file p w) in
      (files w' = files w \<and> writes w' = writes w) \<or>
      (\<exists>c c'. files w p = Some c \<and> p1_pipeline c = Inr c' \<and> c' \<noteq> c \<and>
         files w' = (files w)(p \<mapsto> c') \<and> writes w' = (p, c') # writes w)"
    by (rule p1_process_file_writes)
  show "let w' = snd (update_file p w) in
      (files w' = files w \<and> writes w' = writes w) \<or>
      (\<exists>c. files w p = Some c \<and> update_pipeline c p \<noteq> c \<and>
         files w' = (files w)(p \<mapsto> update_pipeline c p) \<and>
         writes w' = (p, update_pipeline c p) # writes w)"
    by (rule update_file_writes)
next
  fix c assume "files w p = Some c \<and> p1_pipeline c = Inr c"
  then show "files (snd (p1_process_file p w)) = files w"
    and "writes (snd (p1_process_file p w)) = writes w"
    by (auto simp: p1_process_file_def exists_def read_file_def print_def write_file_def Let_def)
next
  fix c assume "files w p = Some c \<and> update_pipeline c p = c"
  then show "files (snd (update_file p w)) = files w"
    and "writes (snd (update_file p w)) = writes w"
    by (auto simp: update_file_def read_file_def print_def write_file_def Let_def)
qed

theorem write_only_on_change_witness:
  "p1_pipeline ''const answer = 42;'' = Inr ''const answer = 42;''
   \<and> writes (snd (p1_process_file ''src/app/api/guides/route.ts''
        \<lparr>files = [''src/app/api/guides/route.ts'' \<mapsto> ''const answer = 42;''],
         reads = [], writes = [], out = []\<rparr>)) = []
   \<and> update_pipeline ''parsePaginationParams(url)'' ''src/app/api/guides/route.ts''
        \<noteq> ''parsePaginationParams(url)''
   \<and> writes (snd (update_file ''src/app/api/guides/route.ts''
        \<lparr>files = [''src/app/api/guides/route.ts'' \<mapsto> ''parsePaginationParams(url)''],
         reads = [], writes = [], out = []\<rparr>)) =
       [(''src/app/api/guides/route.ts'',
         update_pipeline ''parsePaginationParams(url)'' ''src/app/api/guides/route.ts'')]"
proof -
  let ?p = "''src/app/api/guides/route.ts''"
  let ?w1 = "\<lparr>files = [?p \<mapsto> ''const answer = 42;''], reads = [], writes = [], out = []\<rparr>"
  let ?w2 = "\<lparr>files = [?p \<mapsto> ''parsePaginationParams(url)''], reads = [], writes = [], out = []\<rparr>"
  have same: "p1_pipeline ''const answer = 42;'' = Inr ''const answer = 42;''"
    by code_simp
  have changed: "update_pipeline ''parsePaginationParams(url)'' ?p \<noteq> ''parsePaginationParams(url)''"
    by code_simp
  have no_marker: "\<not> sublist ''addStandardHeaders'' ''parsePaginationParams(url)''"
    by code_simp
  have a: "writes (snd (p1_process_file ?p ?w1)) = []"
    using write_only_on_change [of ?p ?w1] same by simp
  have "writes (snd (update_file ?p ?w2)) = writes ?w2 \<or>
        writes (snd (update_file ?p ?w2)) =
          (?p, update_pipeline ''parsePaginationParams(url)'' ?p) # writes ?w2"
    using write_only_on_change [of ?p ?w2] by (auto simp: Let_def)
  moreover have "writes (snd (update_file ?p ?w2)) \<noteq> writes ?w2"
    using changed no_marker
    by (simp add: update_file_def read_file_def print_def write_file_def Let_def)
  ultimately have b: "writes (snd (update_file ?p ?w2)) =
      [(?p, update_pipeline ''parsePaginationParams(url)'' ?p)]"
    by simp
  from same changed a b show ?thesis by blast
qed

subsection \<open>The early exit of migrate-endpoints.py (C10)\<close>

text \<open>
  C10: when the content of an existing file holds \<open>parseStandardPaginationParams\<close> or
  \<open>getRequestId\<close> anywhere, \<open>migrate_endpoint\<close> transforms nothing: it prints, reads the
  file, prints that the file is already migrated and returns \<open>True\<close>; no file changes
  and nothing is written, whatever the other rules would rewrite.
\<close>

theorem migrate_endpoint_skips_migrated:
  "files w p = Some c \<Longrightarrow>
   sublist ''parseStandardPaginationParams'' c \<or> sublist ''getRequestId'' c \<Longrightarrow>
   migrate_endpoint p w =
     (True, w\<lparr>reads := p # reads w, out := AlreadyMigrated p # Migrating p # out w\<rparr>)"
  by (auto simp: migrate_endpoint_def exists_def read_file_def print_def Let_def)

text \<open>
  The witness is a file with the marker in a comment and a legacy error call that the
  error rule would rewrite.
\<close>

theorem migrate_endpoint_skips_migrated_witness:
  "sublist ''getRequestId'' (''// TODO getRequestId\<newline>'' @ ''return errorResponse(tenantResult.error);'')
   \<and> migrate_pipeline (''// TODO getRequestId\<newline>'' @ ''return errorResponse(tenantResult.error);'')
       \<noteq> ''// TODO getRequestId\<newline>'' @ ''return errorResponse(tenantResult.error);''
   \<and> fst (migrate_endpoint ''C:/CRM/src/app/api/agents/route.ts''
        \<lparr>files = [''C:/CRM/src/app/api/agents/route.ts'' \<mapsto>
                     ''// TODO getRequestId\<newline>'' @ ''return errorResponse(tenantResult.error);''],
         reads = [], writes = [], out = []\<rparr>)
   \<and> writes (snd (migrate_endpoint ''C:/CRM/src/app/api/agents/route.ts''
        \<lparr>files = [''C:/CRM/src/app/api/agents/route.ts'' \<mapsto>
                     ''// TODO getRequestId\<newline>'' @ ''return errorResponse(tenantResult.error);''],
         reads = [], writes = [], out = []\<rparr>)) = []"
proof -
  let ?p = "''C:/CRM/src/app/api/agents/route.ts''"
  let ?c = "''// TODO getRequestId\<newline>'' @ ''return errorResponse(tenantResult.error);''"
  let ?w = "\<lparr>files = [?p \<mapsto> ?c], reads = [], writes = [], out = []\<rparr>"
  have marker: "sublist ''getRequestId'' ?c"
    by code_simp
  have other: "migrate_pipeline ?c \<noteq> ?c"
    by code_simp
  have "files ?w ?p = Some ?c"
    by simp
  from migrate_endpoint_skips_migrated [OF this disjI2, OF marker]
  have "fst (migrate_endpoint ?p ?w) \<and> writes (snd (migrate_endpoint ?p ?w)) = []"
    by simp
  with marker other show ?thesis by blast
qed

subsection \<open>The skip list (C9)\<close>

lemma rbac_process_file_frame:
  assumes "q \<noteq> p" and "rbac_process_file q r w = (b, w')"
  shows "files w' p = files w p"
    and "p \<in> set (reads w') \<Longrightarrow> p \<in> set (reads w)"
    and "(p, c) \<in> set (writes w') \<Longrightarrow> (p, c) \<in> set (writes w)"
    and "Updated p \<in> set (out w') \<Longrightarrow> Updated p \<in> set (out w)"
    and "ErrorIn p e \<in> set (out w') \<Longrightarrow> ErrorIn p e \<in> set (out w)"
  using assms
  by (auto simp: rbac_process_file_def read_file_def print_def write_file_def Let_def
           split: option.splits if_splits)

lemma rbac_process_file_out:
  "m \<in> set (out w) \<Longrightarrow> m \<in> set (out (snd (rbac_process_file q r w)))"
  by (auto simp: rbac_process_file_def read_file_def print_def write_file_def Let_def
           split: option.splits)

lemma rbac_loop_out:
  "m \<in> set (out w) \<Longrightarrow> m \<in> set (out (snd (rbac_loop fs n w)))"
proof (induction fs arbitrary: n w)
  case Nil
  then show ?case by simp
next
  case (Cons q fs)
  show ?case
  proof (cases "get_resource_from_path q")
    case None
    with Cons show ?thesis by (simp add: print_def)
  next
    case (Some r)
    obtain b w1 where s: "rbac_process_file q r w = (b, w1)"
      by (cases "rbac_process_file q r w")
    have "m \<in> set (out w1)"
      using rbac_process_file_out [OF Cons.prems, of q r] s by simp
    with Cons.IH Some s show ?thesis by simp
  qed
qed

lemma rbac_loop_skipping:
  "get_resource_from_path p = None \<Longrightarrow> p \<in> set fs \<Longrightarrow>
   Skipping p \<in> set (out (snd (rbac_loop fs n w)))"
proof (induction fs arbitrary: n w)
  case Nil
  then show ?case by simp
next
  case (Cons q fs)
  show ?case
  proof (cases "q = p")
    case True
    have "Skipping p \<in> set (out (print (Skipping p) w))"
      by (simp add: print_def)
    from rbac_loop_out [OF this] True Cons.prems(1) show ?thesis by simp
  next
    case False
    with Cons.prems have "p \<in> set fs" by simp
    from Cons.IH [OF Cons.prems(1) this] show ?thesis
      by (simp split: option.splits prod.splits)
  qed
qed

lemma rbac_loop_frame:
  "get_resource_from_path p = None \<Longrightarrow> rbac_loop fs n w = (n', w') \<Longrightarrow>
   files w' p = files w p \<and>
   (p \<in> set (reads w') \<longrightarrow> p \<in> set (reads w)) \<and>
   (\<forall>c. (p, c) \<in> set (writes w') \<longrightarrow> (p, c) \<in> set (writes w)) \<and>
   (Updated p \<in> set (out w') \<longrightarrow> Updated p \<in> set (out w)) \<and>
   (\<forall>e. ErrorIn p e \<in> set (out w') \<longrightarrow> ErrorIn p e \<in> set (out w))"
proof (induction fs arbitrary: n w)
  case Nil
  then show ?case by simp
next
  case (Cons q fs)
  show ?case
  proof (cases "get_resource_from_path q")
    case None
    with Cons.prems have "rbac_loop fs (n\<lparr>skipped := skipped n + 1\<rparr>) (print (Skipping q) w) = (n', w')"
      by simp
    from Cons.IH [OF Cons.prems(1) this] show ?thesis
      by (simp add: print_def)
  next
    case (Some r)
    with Cons.prems(1) have ne: "q \<noteq> p" by auto
    obtain b w1 where s: "rbac_process_file q r w = (b, w1)"
      by (cases "rbac_process_file q r w")
    with Some Cons.prems obtain n1 where "rbac_loop fs n1 w1 = (n', w')"
      by simp
    from Cons.IH [OF Cons.prems(1) this] rbac_process_file_frame [OF ne s]
    show ?thesis by auto
  qed
qed

text \<open>
  C9: a path whose API segment matches a prefix of the skip list gets no resource from
  \<open>get_resource_from_path\<close>, and \<open>main\<close> of apply-rbac.py then only counts it and prints
  that it is skipped: the file keeps its content, the run neither reads nor writes it, and
  no line reports it as updated or failed.  Every path of the list that matches is
  reported as skipped.
\<close>

theorem skip_list_exclusion:
  "sublist ''/api/'' p \<Longrightarrow> \<exists>skip \<in> set SKIP_PATHS. prefix skip (api_path_of p) \<Longrightarrow>
   get_resource_from_path p = None \<and>
   (let w' = rbac_main route_files w in
      (p \<in> set route_files \<longrightarrow> Skipping p \<in> set (out w')) \<and>
      files w' p = files w p \<and>
      (p \<in> set (reads w') \<longrightarrow> p \<in> set (reads w)) \<and>
      (\<forall>c. (p, c) \<in> set (writes w') \<longrightarrow> (p, c) \<in> set (writes w)) \<and>
      (Updated p \<in> set (out w') \<longrightarrow> Updated p \<in> set (out w)) \<and>
      (\<forall>e. ErrorIn p e \<in> set (out w') \<longrightarrow> ErrorIn p e \<in> set (out w)))"
proof -
  assume api: "sublist ''/api/'' p"
    and skip: "\<exists>skip \<in> set SKIP_PATHS. prefix skip (api_path_of p)"
  from skip have "\<exists>skip \<in> set SKIP_PATHS. sublist skip (api_path_of p)"
    by (meson prefix_imp_sublist)
  with api have none: "get_resource_from_path p = None"
    by (simp add: get_resource_from_path_def Let_def)
  obtain n' w1 where l: "rbac_loop route_files \<lparr>processed = 0, updated = 0, skipped = 0\<rparr> w = (n', w1)"
    by (cases "rbac_loop route_files \<lparr>processed = 0, updated = 0, skipped = 0\<rparr> w")
  have m: "rbac_main route_files w = print (Summary [length route_files, processed n', updated n', skipped n']) w1"
    by (simp add: rbac_main_def l)
  have "p \<in> set route_files \<longrightarrow> Skipping p \<in> set (out w1)"
    using rbac_loop_skipping [OF none, of route_files "\<lparr>processed = 0, updated = 0, skipped = 0\<rparr>" w] l
    by simp
  with rbac_loop_frame [OF none l] none show ?thesis
    unfolding m Let_def by (simp add: print_def)
qed

theorem skip_list_exclusion_witness:
  "sublist ''/api/'' ''/crm/src/app/api/auth/login/route.ts''
   \<and> prefix ''/api/auth'' (api_path_of ''/crm/src/app/api/auth/login/route.ts'')
   \<and> get_resource_from_path ''/crm/src/app/api/auth/login/route.ts'' = None
   \<and> Skipping ''/crm/src/app/api/auth/login/route.ts'' \<in> set (out (rbac_main
         [''/crm/src/app/api/auth/login/route.ts'', ''/crm/src/app/api/users/route.ts'']
         \<lparr>files = [''/crm/src/app/api/auth/login/route.ts'' \<mapsto> ''export async function POST('',
                   ''/crm/src/app/api/users/route.ts'' \<mapsto> ''export async function GET(''],
          reads = [], writes = [], out = []\<rparr>))
   \<and> ''/crm/src/app/api/auth/login/route.ts'' \<notin> set (reads (rbac_main
         [''/crm/src/app/api/auth/login/route.ts'', ''/crm/src/app/api/users/route.ts'']
         \<lparr>files = [''/crm/src/app/api/auth/login/route.ts'' \<mapsto> ''export async function POST('',
                   ''/crm/src/app/api/users/route.ts'' \<mapsto> ''export async function GET(''],
          reads = [], writes = [], out = []\<rparr>))
   \<and> ''/crm/src/app/api/users/route.ts'' \<in> set (reads (rbac_main
         [''/crm/src/app/api/auth/login/route.ts'', ''/crm/src/app/api/users/route.ts'']
         \<lparr>files = [''/crm/src/app/api/auth/login/route.ts'' \<mapsto> ''export async function POST('',
                   ''/crm/src/app/api/users/route.ts'' \<mapsto> ''export async function GET(''],
          reads = [], writes = [], out = []\<rparr>))"
proof -
  let ?p = "''/crm/src/app/api/auth/login/route.ts''"
  let ?q = "''/crm/src/app/api/users/route.ts''"
  let ?w = "\<lparr>files = [?p \<mapsto> ''export async function POST('', ?q \<mapsto> ''export async function GET(''],
             reads = [], writes = [], out = []\<rparr>"
  have api: "sublist ''/api/'' ?p"
    by code_simp
  have pre: "prefix ''/api/auth'' (api_path_of ?p)"
    by code_simp
  then have skip: "\<exists>skip \<in> set SKIP_PATHS. prefix skip (api_path_of ?p)"
    by (simp add: SKIP_PATHS_def)
  have other: "?q \<in> set (reads (rbac_main [?p, ?q] ?w))"
    by code_simp
  from skip_list_exclusion [OF api skip, of "[?p, ?q]" ?w]
  have "get_resource_from_path ?p = None
      \<and> Skipping ?p \<in> set (out (rbac_main [?p, ?q] ?w))
      \<and> ?p \<notin> set (reads (rbac_main [?p, ?q] ?w))"
    by (simp add: Let_def)
  with api pre other show ?thesis by blast
qed

subsection \<open>Pagination calls (C7)\<close>

text \<open>
  C7, as stated: renaming the pagination calls preserves every argument list.  The rule of
  migrate-endpoints.py rewrites a call of \<open>buildPagedResponse\<close> with four arguments into a
  call with six.
\<close>

theorem update_pagination_calls_appends_arguments:
  "update_pagination_calls ''return buildPagedResponse(rows, total, page, pageSize);'' =
   ''return buildStandardListResponse(rows, total, page, pageSize, baseUrl, appliedFilters);''"
  by code_simp

text \<open>
  C7, amended: \<open>replace_pagination_calls\<close> of apply-phase1-standards.py is a substitution of
  names and nothing else.  Its output is the input cut at every \<open>parsePaginationParams(\<close>
  and joined again with \<open>parseStandardPaginationParams(\<close>, then cut at every
  \<open>buildPagedResponse(\<close> and joined again with \<open>buildStandardListResponse(\<close>; joining with
  the old names instead gives the text before each step back, so all the text between the
  names, every argument list included, is the same.
\<close>

theorem replace_pagination_calls_renames_only:
  "replace_pagination_calls content =
     join ''buildStandardListResponse(''
       (split_str ''buildPagedResponse(''
          (join ''parseStandardPaginationParams(''
             (split_str ''parsePaginationParams('' content)))
   \<and> join ''parsePaginationParams('' (split_str ''parsePaginationParams('' content) = content
   \<and> join ''buildPagedResponse(''
       (split_str ''buildPagedResponse(''
          (join ''parseStandardPaginationParams(''
             (split_str ''parsePaginationParams('' content))) =
     join ''parseStandardPaginationParams('' (split_str ''parsePaginationParams('' content)"
  by (simp add: replace_pagination_calls_def str_replace_join join_split_str)

subsection \<open>Rate limiting (C6)\<close>

text \<open>
  The rule of update-phase1-endpoints.py keeps its contract: content that already holds
  a rate check, or that holds no destructure of the authorization result, is returned as
  it is; otherwise the block is inserted right after the first destructure, with the limit
  and the window of the method in the table and the key suffix of the method.
\<close>

lemma rate_limit_table:
  "map_of RATE_LIMITS ''GET'' = Some (100, 3600)"
  "map_of RATE_LIMITS ''POST'' = Some (50, 3600)"
  "map_of RATE_LIMITS ''PUT'' = Some (50, 3600)"
  "map_of RATE_LIMITS ''PATCH'' = Some (50, 3600)"
  "map_of RATE_LIMITS ''DELETE'' = Some (20, 3600)"
  "key_suffix ''GET'' = []"
  "key_suffix ''POST'' = ''_create''"
  "key_suffix ''PUT'' = ''_update''"
  "key_suffix ''PATCH'' = ''_update''"
  "key_suffix ''DELETE'' = ''_delete''"
  by (simp_all add: RATE_LIMITS_def key_suffix_def)

lemma add_rate_limiting_contract:
  "(sublist ''globalRateLimitTracker.trackRequest'' content \<longrightarrow>
      add_rate_limiting content method = content)
   \<and> (\<not> sublist auth_result content \<longrightarrow> add_rate_limiting content method = content)
   \<and> (\<not> sublist ''globalRateLimitTracker.trackRequest'' (pre @ auth_result @ post) \<longrightarrow>
      \<not> sublist auth_result (pre @ butlast auth_result) \<longrightarrow>
      map_of RATE_LIMITS method = Some (limit, window) \<longrightarrow>
      add_rate_limiting (pre @ auth_result @ post) method =
        pre @ auth_result @ rate_limit_code limit window (key_suffix method) @ post)"
proof (intro conjI impI)
  show "add_rate_limiting content method = content"
    if "sublist ''globalRateLimitTracker.trackRequest'' content"
    using that by (simp add: add_rate_limiting_def split: option.splits)
  have ne: "auth_result \<noteq> []"
    by (simp add: auth_result_def)
  show "add_rate_limiting content method = content" if "\<not> sublist auth_result content"
    using re_search_Lit_none [OF ne that] by (simp add: add_rate_limiting_def)
  show "add_rate_limiting (pre @ auth_result @ post) method =
        pre @ auth_result @ rate_limit_code limit window (key_suffix method) @ post"
    if "\<not> sublist ''globalRateLimitTracker.trackRequest'' (pre @ auth_result @ post)"
      and "\<not> sublist auth_result (pre @ butlast auth_result)"
      and "map_of RATE_LIMITS method = Some (limit, window)"
    using re_search_Lit_first [OF ne that(2), of post] that(1,3)
    by (simp add: add_rate_limiting_def)
qed

text \<open>
  C6: where a rate check already appears in the content, rate-limit injection leaves the
  content unchanged.  The injection of apply-phase1-standards.py, the second half of
  \<open>add_request_tracking_to_get\<close>, has no such test: on a handler that already holds the
  block it inserts the block again after the destructure.
\<close>

theorem add_request_tracking_to_get_limits_twice:
  "sublist ''globalRateLimitTracker.trackRequest''
     (''    const { tenantId, user } = authResult;'' @ get_rate_limit_code @
      ''\<newline>    return list(tenantId);\<newline>'')
   \<and>
   add_request_tracking_to_get
     (''    const { tenantId, user } = authResult;'' @ get_rate_limit_code @
      ''\<newline>    return list(tenantId);\<newline>'') =
   ''    const { tenantId, user } = authResult;'' @ get_rate_limit_code @ get_rate_limit_code @
   ''\<newline>    return list(tenantId);\<newline>''"
  by code_simp

subsection \<open>The not-found error (C8)\<close>










end
